theory Spec2Isabelle
  imports Complex_Main "HOL-Library.List_Lexorder" "HOL-Library.Char_ord"
    "HOL-Library.Product_Lexorder" "HOL-Library.Multiset"
begin

section \<open>Numbers as the dashboard sees them\<close>

text \<open>
  Every numeric column of the dashboard is a pandas float64 column. A finite value is
  modelled by the rational it denotes (rounding and overflow are left out, signed zeros
  are identified); the three special values are kept, because the claims about zero
  denominators are claims about them.
\<close>

datatype float64 = Fin rat | PInf | NInf | NaN

fun fneg :: "float64 \<Rightarrow> float64" where
  "fneg (Fin a) = Fin (- a)"
| "fneg PInf = NInf"
| "fneg NInf = PInf"
| "fneg NaN = NaN"

fun fadd :: "float64 \<Rightarrow> float64 \<Rightarrow> float64" where
  "fadd NaN _ = NaN"
| "fadd _ NaN = NaN"
| "fadd (Fin a) (Fin b) = Fin (a + b)"
| "fadd PInf NInf = NaN"
| "fadd NInf PInf = NaN"
| "fadd PInf _ = PInf"
| "fadd NInf _ = NInf"
| "fadd (Fin a) PInf = PInf"
| "fadd (Fin a) NInf = NInf"

definition fsub :: "float64 \<Rightarrow> float64 \<Rightarrow> float64" where
  "fsub a b = fadd a (fneg b)"

text \<open>The sign of a value that is not NaN: \<open>-1\<close>, \<open>0\<close> or \<open>1\<close>.\<close>

fun fsign :: "float64 \<Rightarrow> int" where
  "fsign (Fin a) = (if a < 0 then - 1 else if a = 0 then 0 else 1)"
| "fsign PInf = 1"
| "fsign NInf = - 1"
| "fsign NaN = 0"

definition signed_inf :: "int \<Rightarrow> float64" where
  "signed_inf s = (if s < 0 then NInf else PInf)"

fun is_inf :: "float64 \<Rightarrow> bool" where
  "is_inf PInf = True"
| "is_inf NInf = True"
| "is_inf _ = False"

fun fmul :: "float64 \<Rightarrow> float64 \<Rightarrow> float64" where
  "fmul NaN _ = NaN"
| "fmul _ NaN = NaN"
| "fmul (Fin a) (Fin b) = Fin (a * b)"
| "fmul x y = (if fsign x * fsign y = 0 then NaN else signed_inf (fsign x * fsign y))"

text \<open>
  Element-wise division of two pandas columns (and of numpy scalars): it never raises.
  A zero divisor gives an infinity of the dividend's sign, and NaN for \<open>0 / 0\<close>.
\<close>

fun fdiv :: "float64 \<Rightarrow> float64 \<Rightarrow> float64" where
  "fdiv NaN _ = NaN"
| "fdiv _ NaN = NaN"
| "fdiv (Fin a) (Fin b) =
     (if b = 0 then (if a = 0 then NaN else signed_inf (fsign (Fin a))) else Fin (a / b))"
| "fdiv (Fin a) _ = Fin 0"
| "fdiv x (Fin b) = signed_inf (fsign x * (if b < 0 then - 1 else 1))"
| "fdiv _ _ = NaN"

text \<open>The comparison \<open>x > y\<close>: false as soon as one side is NaN.\<close>

fun fgt :: "float64 \<Rightarrow> float64 \<Rightarrow> bool" where
  "fgt NaN _ = False"
| "fgt _ NaN = False"
| "fgt (Fin a) (Fin b) = (a > b)"
| "fgt PInf PInf = False"
| "fgt PInf _ = True"
| "fgt NInf _ = False"
| "fgt (Fin a) PInf = False"
| "fgt (Fin a) NInf = True"

text \<open>
  The exceptions of the Python code are values. A function that can raise returns
  \<open>py_error + 'a\<close>, with \<open>Inl\<close> for the exception.
\<close>

datatype py_error =
    ZeroDivisionError
  | FileNotFoundError string
  | Exception string
  | ClientError string
  | BotoCoreError string
  | UnicodeDecodeError
  | EmptyDataError
  | ParserError

text \<open>
  The operator \<open>/\<close> on two scalars. Python raises \<open>ZeroDivisionError\<close> on a zero divisor
  when the operands are built-in numbers; the numpy scalars that \<open>Series.sum()\<close> returns
  give \<open>inf\<close> or \<open>nan\<close> with a warning instead. The model keeps the raising reading, the
  stricter of the two, so that a theorem saying that no error is returned covers both.
\<close>

definition scalar_truediv :: "float64 \<Rightarrow> float64 \<Rightarrow> py_error + float64" where
  "scalar_truediv a b = (if b = Fin 0 then Inl ZeroDivisionError else Inr (fdiv a b))"

subsection \<open>Format specifications\<close>

fun digits_of :: "nat \<Rightarrow> string" where
  "digits_of n =
     (if n < 10 then [''0123456789'' ! n]
      else digits_of (n div 10) @ [''0123456789'' ! (n mod 10)])"

declare digits_of.simps [simp del]

text \<open>The \<open>,\<close> option: the digits of the integer part in groups of three, from the right.\<close>

fun group3 :: "string \<Rightarrow> string" where
  "group3 (a # b # c # d # rest) = a # b # c # CHR '','' # group3 (d # rest)"
| "group3 ds = ds"

definition thousands :: "string \<Rightarrow> string" where
  "thousands ds = rev (group3 (rev ds))"

definition round_half_even :: "rat \<Rightarrow> int" where
  "round_half_even x =
     (let f = \<lfloor>x\<rfloor>; d = x - of_int f
      in if d < 1 / 2 then f else if 1 / 2 < d then f + 1
         else if even f then f else f + 1)"

definition zero_pad :: "nat \<Rightarrow> string \<Rightarrow> string" where
  "zero_pad w ds = replicate (w - length ds) CHR ''0'' @ ds"

text \<open>
  \<open>format_f comma p x\<close> is Python's \<open>f"{x:,.pf}"\<close> (with the comma) or \<open>f"{x:.pf}"\<close>
  (without): \<open>p\<close> decimals, rounded half to even, the sign kept even when the digits
  round to zero; the special values print as \<open>inf\<close>, \<open>-inf\<close> and \<open>nan\<close>.
\<close>

fun format_f :: "bool \<Rightarrow> nat \<Rightarrow> float64 \<Rightarrow> string" where
  "format_f comma p (Fin x) =
     (let n = nat (round_half_even (\<bar>x\<bar> * 10 ^ p));
          ip = digits_of (n div 10 ^ p);
          fp = zero_pad p (digits_of (n mod 10 ^ p))
      in (if x < 0 then ''-'' else '''')
         @ (if comma then thousands ip else ip)
         @ (if p = 0 then '''' else ''.'' @ fp))"
| "format_f comma p PInf = ''inf''"
| "format_f comma p NInf = ''-inf''"
| "format_f comma p NaN = ''nan''"

text \<open>The rupee sign that prefixes every amount, as its UTF-8 bytes.\<close>

definition rupee :: string where
  "rupee = [CHR 0xE2, CHR 0x82, CHR 0xB9]"

definition format_rupees :: "float64 \<Rightarrow> string" where
  \<comment> \<open>\<open>lambda x: f"(rupee sign){x:,.0f}"\<close>\<close>
  "format_rupees x = rupee @ format_f True 0 x"

definition format_percent2 :: "float64 \<Rightarrow> string" where
  \<comment> \<open>\<open>lambda x: f"{x:.2f}%"\<close>\<close>
  "format_percent2 x = format_f False 2 x @ ''%''"

section \<open>The pandas operations the dashboard uses\<close>

text \<open>
  \<open>Series.sum()\<close> skips missing values: NaN counts as zero. An empty column sums to zero.
\<close>

definition series_sum :: "float64 list \<Rightarrow> float64" where
  "series_sum xs = foldl fadd (Fin 0) (filter (\<lambda>x. x \<noteq> NaN) xs)"

text \<open>
  \<open>df.groupby(key)[val].sum().reset_index()\<close>: one row per distinct key, the keys in
  ascending order, the values of each group summed.
\<close>

definition groupby_sum ::
  "('r \<Rightarrow> 'k::linorder) \<Rightarrow> ('r \<Rightarrow> float64) \<Rightarrow> 'r list \<Rightarrow> ('k \<times> float64) list" where
  "groupby_sum key val rows =
     map (\<lambda>k. (k, series_sum (map val (filter (\<lambda>r. key r = k) rows))))
       (sort (remdups (map key rows)))"

text \<open>
  \<open>pd.merge(left, right, on=key)\<close>: the inner join, in the order of the left keys.
\<close>

definition merge_on :: "('k \<times> 'a) list \<Rightarrow> ('k \<times> 'b) list \<Rightarrow> ('k \<times> 'a \<times> 'b) list" where
  "merge_on left right =
     concat (map (\<lambda>(k, a). map (\<lambda>(k', b). (k, a, b)) (filter (\<lambda>(k', b). k' = k) right)) left)"

subsection \<open>Sorting a table by a column\<close>

text \<open>
  \<open>df.sort_values(by, ascending=...)\<close> sorts with numpy's \<open>argsort\<close>, by default of kind
  \<open>quicksort\<close>, which promises nothing about rows with equal keys. The model takes
  \<open>argsort\<close> as a parameter; \<open>argsort_ok\<close> is all that numpy promises of it: the indices
  of the array, permuted so that the keys ascend. \<open>stable_argsort\<close> is one such function,
  a stable one: it is what numpy's quicksort does on a short array, which it sorts by
  insertion.
\<close>

fun sort_rank :: "float64 \<Rightarrow> nat \<times> rat" where
  "sort_rank NInf = (0, 0)"
| "sort_rank (Fin a) = (1, a)"
| "sort_rank PInf = (2, 0)"
| "sort_rank NaN = (3, 0)"

definition argsort_ok :: "(float64 list \<Rightarrow> nat list) \<Rightarrow> bool" where
  "argsort_ok argsort \<longleftrightarrow>
     (\<forall>xs. mset (argsort xs) = mset [0..<length xs]
         \<and> sorted (map (\<lambda>i. sort_rank (xs ! i)) (argsort xs)))"

definition stable_argsort :: "float64 list \<Rightarrow> nat list" where
  "stable_argsort xs = map snd (sort_key fst (zip (map sort_rank xs) [0..<length xs]))"

text \<open>
  pandas' \<open>nargsort\<close>, which \<open>sort_values\<close> calls on the key column: the missing values
  are set apart and placed last; for a descending sort the rest is reversed, sorted
  ascending and reversed again.
\<close>

definition nargsort :: "(float64 list \<Rightarrow> nat list) \<Rightarrow> bool \<Rightarrow> float64 list \<Rightarrow> nat list" where
  "nargsort argsort ascending items =
     (let idx = [0..<length items];
          non_nan_idx = filter (\<lambda>i. items ! i \<noteq> NaN) idx;
          nan_idx = filter (\<lambda>i. items ! i = NaN) idx;
          non_nans = map (\<lambda>i. items ! i) non_nan_idx;
          non_nans' = (if ascending then non_nans else rev non_nans);
          non_nan_idx' = (if ascending then non_nan_idx else rev non_nan_idx);
          indexer = map (\<lambda>j. non_nan_idx' ! j) (argsort non_nans');
          indexer' = (if ascending then indexer else rev indexer)
      in indexer' @ nan_idx)"

definition sort_values ::
  "(float64 list \<Rightarrow> nat list) \<Rightarrow> ('r \<Rightarrow> float64) \<Rightarrow> bool \<Rightarrow> 'r list \<Rightarrow> 'r list" where
  "sort_values argsort by ascending df =
     map (\<lambda>i. df ! i) (nargsort argsort ascending (map by df))"

text \<open>
  What a sort by a key column achieves: \<open>key_before ascending a b\<close> says that a row of
  key \<open>a\<close> may stand before a row of key \<open>b\<close>. Missing keys stand last in both
  directions.
\<close>

definition key_before :: "bool \<Rightarrow> float64 \<Rightarrow> float64 \<Rightarrow> bool" where
  "key_before ascending a b \<longleftrightarrow>
     b = NaN \<or> (a \<noteq> NaN \<and>
       (if ascending then sort_rank a \<le> sort_rank b else sort_rank b \<le> sort_rank a))"

section \<open>The sales table and the overview metrics\<close>

record 'y sales_row =
  salon_names :: string
  brand :: string
  year :: 'y
  month :: string
  mtd_sales :: float64
  mtd_bills :: float64

text \<open>
  The third metric of the overview tab:
  \<^verbatim>\<open>avg_bill_value = total_sales / total_bills if total_bills > 0 else 0\<close>
\<close>

definition avg_bill_value :: "'y sales_row list \<Rightarrow> py_error + float64" where
  "avg_bill_value filtered_data =
     (let total_sales = series_sum (map mtd_sales filtered_data);
          total_bills = series_sum (map mtd_bills filtered_data)
      in if fgt total_bills (Fin 0) then scalar_truediv total_sales total_bills
         else Inr (Fin 0))"

section \<open>Growth between two years\<close>

text \<open>
  The Year-to-Year Comparison of the growth tab. The two columns are computed element
  by element:
  \<^verbatim>\<open>growth_data['Growth_Amount'] = growth_data['MTD SALES_compare'] - growth_data['MTD SALES_base']\<close>
  \<^verbatim>\<open>growth_data['Growth_Percent'] = ((growth_data['MTD SALES_compare'] / growth_data['MTD SALES_base']) - 1) * 100\<close>
  The table \<open>salon_growth\<close> of the same tab is this computation with the base year
  \<open>'2023'\<close> and the comparison year \<open>'2025'\<close>.
\<close>

record growth_row =
  outlet :: string
  sales_base :: float64
  sales_compare :: float64
  growth_amount :: float64
  growth_percent :: float64

definition growth_amount_of :: "float64 \<Rightarrow> float64 \<Rightarrow> float64" where
  "growth_amount_of base compare = fsub compare base"

definition growth_percent_of :: "float64 \<Rightarrow> float64 \<Rightarrow> float64" where
  "growth_percent_of base compare = fmul (fsub (fdiv compare base) (Fin 1)) (Fin 100)"

definition growth_data :: "'y \<Rightarrow> 'y \<Rightarrow> 'y sales_row list \<Rightarrow> growth_row list" where
  "growth_data base_year compare_year sales_data =
     (let base_data = filter (\<lambda>r. year r = base_year) sales_data;
          compare_data = filter (\<lambda>r. year r = compare_year) sales_data;
          base_by_salon = groupby_sum salon_names mtd_sales base_data;
          compare_by_salon = groupby_sum salon_names mtd_sales compare_data
      in map (\<lambda>(k, b, c).
               \<lparr>outlet = k, sales_base = b, sales_compare = c,
                growth_amount = growth_amount_of b c,
                growth_percent = growth_percent_of b c\<rparr>)
           (merge_on base_by_salon compare_by_salon))"

text \<open>
  The Detailed Growth Table: the rows sorted by falling growth percent, every number
  turned into text. The percent column is formatted by \<open>lambda x: f"{x:.2f}%"\<close>.
\<close>

record display_growth_row =
  d_outlet :: string
  d_sales_base :: string
  d_sales_compare :: string
  d_growth_amount :: string
  d_growth_percent :: string

definition display_growth ::
  "(float64 list \<Rightarrow> nat list) \<Rightarrow> 'y \<Rightarrow> 'y \<Rightarrow> 'y sales_row list \<Rightarrow> display_growth_row list" where
  "display_growth argsort base_year compare_year sales_data =
     map (\<lambda>r. \<lparr>d_outlet = outlet r,
               d_sales_base = format_rupees (sales_base r),
               d_sales_compare = format_rupees (sales_compare r),
               d_growth_amount = format_rupees (growth_amount r),
               d_growth_percent = format_percent2 (growth_percent r)\<rparr>)
       (sort_values argsort growth_percent False
          (growth_data base_year compare_year sales_data))"

text \<open>
  The Center Growth Analysis of the service tab computes the same percentage for one
  center and two consecutive years, behind a guard, and formats it with a special case:
  \<^verbatim>\<open>if prev_sales > 0: growth_pct = ((current_sales / prev_sales) - 1) * 100\<close>
  \<^verbatim>\<open>else: growth_pct = float('inf')\<close>
  \<^verbatim>\<open>lambda x: f"{x:.2f}%" if not pd.isna(x) and not np.isinf(x) else "N/A"\<close>
\<close>

definition growth_pct :: "float64 \<Rightarrow> float64 \<Rightarrow> py_error + float64" where
  "growth_pct prev_sales current_sales =
     (if fgt prev_sales (Fin 0)
      then (case scalar_truediv current_sales prev_sales of
              Inl e \<Rightarrow> Inl e
            | Inr q \<Rightarrow> Inr (fmul (fsub q (Fin 1)) (Fin 100)))
      else Inr PInf)"

definition display_center_growth :: "float64 \<Rightarrow> string" where
  "display_center_growth x =
     (if x \<noteq> NaN \<and> \<not> is_inf x then format_percent2 x else ''N/A'')"

section \<open>The service table\<close>

record 'y service_row =
  center_name :: string
  service_type :: string
  category :: string
  svc_year :: 'y
  total_sales :: float64
  transaction_count :: float64

text \<open>
  \<open>df.groupby(key).agg({'Total_Sales': 'sum', 'Transaction_Count': 'sum'}).reset_index()\<close>
\<close>

definition groupby_agg_sum ::
  "('y service_row \<Rightarrow> string) \<Rightarrow> 'y service_row list \<Rightarrow> (string \<times> float64 \<times> float64) list" where
  "groupby_agg_sum key rows =
     map (\<lambda>k. (k, series_sum (map total_sales (filter (\<lambda>r. key r = k) rows)),
                  series_sum (map transaction_count (filter (\<lambda>r. key r = k) rows))))
       (sort (remdups (map key rows)))"

text \<open>
  The Service Category Metrics table. The average is the quotient of the two summed
  columns, taken for every row; the sales and the average are then formatted as amounts.
\<close>

record service_metrics =
  group_name :: string
  sum_sales :: float64
  sum_count :: float64
  average_transaction :: float64

definition with_average_transaction :: "string \<times> float64 \<times> float64 \<Rightarrow> service_metrics" where
  "with_average_transaction = (\<lambda>(k, s, c).
     \<lparr>group_name = k, sum_sales = s, sum_count = c, average_transaction = fdiv s c\<rparr>)"

definition category_details :: "'y service_row list \<Rightarrow> service_metrics list" where
  "category_details filtered_service_data =
     map with_average_transaction (groupby_agg_sum service_type filtered_service_data)"

record service_metrics_display =
  service_category :: string
  total_sales_text :: string
  transaction_count_shown :: float64
  average_transaction_text :: string

definition category_details_display :: "'y service_row list \<Rightarrow> service_metrics_display list" where
  "category_details_display filtered_service_data =
     map (\<lambda>r. \<lparr>service_category = group_name r,
               total_sales_text = format_rupees (sum_sales r),
               transaction_count_shown = sum_count r,
               average_transaction_text = format_rupees (average_transaction r)\<rparr>)
       (category_details filtered_service_data)"

text \<open>The same per center, sorted by falling sales, for the bar chart of the centers.\<close>

definition center_sales ::
  "(float64 list \<Rightarrow> nat list) \<Rightarrow> 'y service_row list \<Rightarrow> service_metrics list" where
  "center_sales argsort filtered_service_data =
     sort_values argsort sum_sales False
       (map with_average_transaction (groupby_agg_sum center_name filtered_service_data))"

section \<open>The category breakdown\<close>

record category_row =
  business_unit :: string
  item_category :: string
  cat_total_sales :: float64
  total_quantity :: float64

text \<open>
  \<^verbatim>\<open>top_categories = category_data.sort_values('Total_Sales', ascending=False).head(15)\<close>
\<close>

definition top_categories ::
  "(float64 list \<Rightarrow> nat list) \<Rightarrow> category_row list \<Rightarrow> category_row list" where
  "top_categories argsort category_data =
     take 15 (sort_values argsort cat_total_sales False category_data)"

text \<open>
  The order that the specification asks of a top-N selection: falling sales, and rising
  category name among rows of equal sales.
\<close>

definition by_sales_then_name :: "category_row list \<Rightarrow> bool" where
  "by_sales_then_name rows \<longleftrightarrow>
     sorted_wrt (\<lambda>a b. sort_rank (cat_total_sales b) < sort_rank (cat_total_sales a)
                    \<or> (cat_total_sales a = cat_total_sales b
                        \<and> item_category a \<le> item_category b)) rows"

section \<open>The choice of the two years\<close>

text \<open>
  \<open>Series.unique()\<close> keeps the values in the order of their first appearance.
\<close>

definition unique :: "'a list \<Rightarrow> 'a list" where
  "unique xs = rev (remdups (rev xs))"

text \<open>
  \<^verbatim>\<open>years = sorted(sales_data['Year'].unique())\<close>
\<close>

definition year_options :: "('y::linorder) sales_row list \<Rightarrow> 'y list" where
  "year_options sales_data = sort (unique (map year sales_data))"

text \<open>
  \<open>st.selectbox(label, options, index=0)\<close> returns the option the user picks, the first
  one unless the user changes it, and \<open>None\<close> when there is no option. The user's pick
  is the position \<open>choice\<close>.
\<close>

definition selectbox :: "'a list \<Rightarrow> nat \<Rightarrow> 'a option" where
  "selectbox options choice = (if choice < length options then Some (options ! choice) else None)"

text \<open>
  \<^verbatim>\<open>base_year = st.selectbox("Base Year", years[:-1], index=0)\<close>
  \<^verbatim>\<open>compare_year = st.selectbox("Comparison Year", [y for y in years if y > base_year], index=0)\<close>
  Both run only under \<open>if len(years) >= 2\<close>.
\<close>

definition base_year_options :: "'y list \<Rightarrow> 'y list" where
  "base_year_options years = butlast years"

definition compare_year_options :: "('y::linorder) list \<Rightarrow> 'y \<Rightarrow> 'y list" where
  "compare_year_options years base_year = filter (\<lambda>y. y > base_year) years"

definition year_to_year_selection ::
  "('y::linorder) sales_row list \<Rightarrow> nat \<Rightarrow> nat \<Rightarrow> ('y \<times> 'y) option" where
  "year_to_year_selection sales_data i j =
     (let years = year_options sales_data
      in if length years \<ge> 2
         then (case selectbox (base_year_options years) i of
                 None \<Rightarrow> None
               | Some base_year \<Rightarrow>
                   (case selectbox (compare_year_options years base_year) j of
                      None \<Rightarrow> None
                    | Some compare_year \<Rightarrow> Some (base_year, compare_year)))
         else None)"

section \<open>Months on the charts\<close>

text \<open>
  The month-keyed tables are put in calendar order before they are drawn:
  \<^verbatim>\<open>monthly_sales['Month_Sorted'] = pd.Categorical(monthly_sales['Month'], categories=month_order, ordered=True)\<close>
  \<^verbatim>\<open>monthly_sales = monthly_sales.sort_values('Month_Sorted')\<close>
  The sort key of a month is its position in \<open>month_order\<close>; a value that is not one of
  the twelve names has a missing key.
\<close>

definition month_order :: "string list" where
  "month_order = [''January'', ''February'', ''March'', ''April'', ''May'', ''June'',
     ''July'', ''August'', ''September'', ''October'', ''November'', ''December'']"

fun index_of :: "'a \<Rightarrow> 'a list \<Rightarrow> nat option" where
  "index_of x [] = None"
| "index_of x (y # ys) = (if x = y then Some 0 else map_option Suc (index_of x ys))"

definition month_sorted :: "string \<Rightarrow> float64" where
  "month_sorted m = (case index_of m month_order of Some i \<Rightarrow> Fin (of_nat i) | None \<Rightarrow> NaN)"

definition monthly_sales ::
  "(float64 list \<Rightarrow> nat list) \<Rightarrow> ('y::linorder) sales_row list \<Rightarrow> ((string \<times> 'y) \<times> float64) list" where
  "monthly_sales argsort filtered_data =
     sort_values argsort (\<lambda>r. month_sorted (fst (fst r))) True
       (groupby_sum (\<lambda>r. (month r, year r)) mtd_sales filtered_data)"

text \<open>
  What a plotly express chart with \<open>x=...\<close> and \<open>color=...\<close> shows on a category axis:
  one trace per colour value, in the order in which the values first appear in the table,
  and the categories in the order in which the traces first mention them. A table with a
  single colour value shows its categories in the order of its rows.
\<close>

definition px_category_axis :: "('r \<Rightarrow> string) \<Rightarrow> ('r \<Rightarrow> 'c) \<Rightarrow> 'r list \<Rightarrow> string list" where
  "px_category_axis x color df =
     unique (concat (map (\<lambda>c. map x (filter (\<lambda>r. color r = c) df)) (unique (map color df))))"

text \<open>
  The T NAGAR chart is drawn from the filtered sales rows as they are:
  \<^verbatim>\<open>t_nagar_data = sales_data[sales_data['SALON NAMES'] == 'T NAGAR']\<close>
  \<^verbatim>\<open>fig = px.bar(t_nagar_data, x='Month', y='MTD SALES', color='Year', barmode='group', ...)\<close>
\<close>

definition t_nagar_chart_months :: "'y sales_row list \<Rightarrow> string list" where
  "t_nagar_chart_months sales_data =
     px_category_axis month year (filter (\<lambda>r. salon_names r = ''T NAGAR'') sales_data)"

text \<open>A sequence of months is in calendar order when their positions never fall.\<close>

definition calendar_ordered :: "string list \<Rightarrow> bool" where
  "calendar_ordered ms \<longleftrightarrow>
     sorted_wrt (\<lambda>a b. key_before True (month_sorted a) (month_sorted b)) ms"

section \<open>The object store\<close>

text \<open>
  \<open>s3_utils.py\<close> talks to the object store through three calls of the boto3 client:
  \<open>get_object\<close>, \<open>head_object\<close> and \<open>put_object\<close>. The store is a map from bucket and key
  to the bytes of the object, together with the failure, if any, that the next calls run
  into: a refused access, a missing bucket, a failing service, a broken connection or a
  client that cannot be created.
\<close>

datatype s3_fault =
    AccessDenied
  | NoSuchBucket
  | ServiceUnavailable
  | ConnectionFailed
  | ClientCreationFailed

record s3_world =
  objects :: "string \<times> string \<Rightarrow> string option"
  fault :: "s3_fault option"

text \<open>
  How boto3 reports a failure: the service's refusals as a \<open>ClientError\<close> with an error
  code, the others as exceptions of botocore that are not a \<open>ClientError\<close>.
\<close>

fun fault_error :: "s3_fault \<Rightarrow> py_error" where
  "fault_error AccessDenied = ClientError ''AccessDenied''"
| "fault_error NoSuchBucket = ClientError ''NoSuchBucket''"
| "fault_error ServiceUnavailable = ClientError ''ServiceUnavailable''"
| "fault_error ConnectionFailed = BotoCoreError ''EndpointConnectionError''"
| "fault_error ClientCreationFailed = BotoCoreError ''NoRegionError''"

text \<open>
  \<open>str(e)\<close> of an exception, abridged: of a \<open>ClientError\<close> only the part that names the
  error code is kept.
\<close>

fun error_text :: "py_error \<Rightarrow> string" where
  "error_text ZeroDivisionError = ''division by zero''"
| "error_text (FileNotFoundError m) = m"
| "error_text (Exception m) = m"
| "error_text (ClientError code) = ''An error occurred ('' @ code @ '')''"
| "error_text (BotoCoreError m) = m"
| "error_text UnicodeDecodeError = ''invalid utf-8''"
| "error_text EmptyDataError = ''No columns to parse from file''"
| "error_text ParserError = ''Error tokenizing data''"

text \<open>
  Sequencing of calls that can raise: the first exception ends the sequence.
\<close>

definition then_do :: "'e + 'a \<Rightarrow> ('a \<Rightarrow> 'e + 'b) \<Rightarrow> 'e + 'b" where
  "then_do r f = (case r of Inl e \<Rightarrow> Inl e | Inr v \<Rightarrow> f v)"

text \<open>
  \<^verbatim>\<open>def get_s3_client(): try: return boto3.client('s3', ...)\<close>
  \<^verbatim>\<open>except Exception as e: raise Exception(f"Failed to create S3 client: {str(e)}")\<close>
\<close>

definition get_s3_client :: "s3_world \<Rightarrow> py_error + unit" where
  "get_s3_client w =
     (if fault w = Some ClientCreationFailed
      then Inl (Exception (''Failed to create S3 client: ''
                  @ error_text (fault_error ClientCreationFailed)))
      else Inr ())"

text \<open>
  The answers of the store. A \<open>GetObject\<close> for a key that is not there is refused with
  the code \<open>NoSuchKey\<close>; a \<open>HeadObject\<close> has no body to carry a code, and boto3 reports the
  HTTP status instead: \<open>404\<close> for a key or a bucket that is not there.
\<close>

definition get_object :: "s3_world \<Rightarrow> string \<Rightarrow> string \<Rightarrow> py_error + string" where
  "get_object w bucket key =
     (case fault w of
        Some f \<Rightarrow> Inl (fault_error f)
      | None \<Rightarrow>
          (case objects w (bucket, key) of
             None \<Rightarrow> Inl (ClientError ''NoSuchKey'')
           | Some body \<Rightarrow> Inr body))"

definition head_object :: "s3_world \<Rightarrow> string \<Rightarrow> string \<Rightarrow> py_error + unit" where
  "head_object w bucket key =
     (case fault w of
        Some AccessDenied \<Rightarrow> Inl (ClientError ''403'')
      | Some NoSuchBucket \<Rightarrow> Inl (ClientError ''404'')
      | Some ServiceUnavailable \<Rightarrow> Inl (ClientError ''503'')
      | Some f \<Rightarrow> Inl (fault_error f)
      | None \<Rightarrow>
          (case objects w (bucket, key) of
             None \<Rightarrow> Inl (ClientError ''404'')
           | Some body \<Rightarrow> Inr ()))"


text \<open>
  \<open>bytes.decode('utf-8')\<close>. A Python \<open>str\<close> is modelled by its UTF-8 bytes, so that
  decoding is the check that the bytes are well-formed UTF-8 (no stray continuation byte,
  no overlong form, no surrogate, nothing above U+10FFFF), and encoding is the identity.
\<close>

definition is_cont :: "char \<Rightarrow> bool" where
  "is_cont c \<longleftrightarrow> 0x80 \<le> (of_char c :: nat) \<and> (of_char c :: nat) \<le> 0xBF"

definition in_range :: "nat \<Rightarrow> nat \<Rightarrow> char \<Rightarrow> bool" where
  "in_range lo hi c \<longleftrightarrow> lo \<le> (of_char c :: nat) \<and> (of_char c :: nat) \<le> hi"

fun utf8_valid :: "string \<Rightarrow> bool" where
  "utf8_valid [] = True"
| "utf8_valid (c # cs) =
     (if in_range 0x00 0x7F c then utf8_valid cs
      else if in_range 0xC2 0xDF c then
        (case cs of c1 # r \<Rightarrow> is_cont c1 \<and> utf8_valid r | _ \<Rightarrow> False)
      else if in_range 0xE0 0xEF c then
        (case cs of
           c1 # c2 # r \<Rightarrow>
             (if in_range 0xE0 0xE0 c then in_range 0xA0 0xBF c1
              else if in_range 0xED 0xED c then in_range 0x80 0x9F c1
              else is_cont c1)
             \<and> is_cont c2 \<and> utf8_valid r
         | _ \<Rightarrow> False)
      else if in_range 0xF0 0xF4 c then
        (case cs of
           c1 # c2 # c3 # r \<Rightarrow>
             (if in_range 0xF0 0xF0 c then in_range 0x90 0xBF c1
              else if in_range 0xF4 0xF4 c then in_range 0x80 0x8F c1
              else is_cont c1)
             \<and> is_cont c2 \<and> is_cont c3 \<and> utf8_valid r
         | _ \<Rightarrow> False)
      else False)"

definition decode_utf8 :: "string \<Rightarrow> py_error + string" where
  "decode_utf8 body = (if utf8_valid body then Inr body else Inl UnicodeDecodeError)"

text \<open>
  The three functions of \<open>s3_utils.py\<close>. The reader \<open>pd.read_csv\<close> and the writer
  \<open>df.to_csv(..., index=False)\<close> are parameters. In \<open>read_csv_from_s3\<close> only a
  \<open>ClientError\<close> is caught: code \<open>NoSuchKey\<close> becomes \<open>FileNotFoundError\<close>, any other code a
  plain \<open>Exception\<close>; every other exception passes through as it is.
\<close>

definition read_csv_from_s3 ::
  "(string \<Rightarrow> py_error + 'df) \<Rightarrow> s3_world \<Rightarrow> string \<Rightarrow> string \<Rightarrow> py_error + 'df" where
  "read_csv_from_s3 read_csv w bucket_name file_key =
     (case then_do (get_s3_client w) (\<lambda>s3_client.
           then_do (get_object w bucket_name file_key) (\<lambda>body.
           then_do (decode_utf8 body) (\<lambda>csv_content.
           read_csv csv_content)))
      of Inl (ClientError code) \<Rightarrow>
           (if code = ''NoSuchKey''
            then Inl (FileNotFoundError
                   (''File '' @ file_key @ '' not found in bucket '' @ bucket_name))
            else Inl (Exception (''Error reading file from S3: ''
                   @ error_text (ClientError code))))
       | r \<Rightarrow> r)"


definition check_file_exists_in_s3 :: "s3_world \<Rightarrow> string \<Rightarrow> string \<Rightarrow> py_error + bool" where
  "check_file_exists_in_s3 w bucket_name file_key =
     (case then_do (get_s3_client w) (\<lambda>s3_client. head_object w bucket_name file_key) of
        Inr u \<Rightarrow> Inr True
      | Inl (ClientError code) \<Rightarrow>
          (if code = ''404'' then Inr False
           else Inl (Exception (''Error checking file existence in S3: ''
                  @ error_text (ClientError code))))
      | Inl e \<Rightarrow> Inl e)"



section \<open>Tables as CSV text\<close>

text \<open>
  A table as pandas holds it after reading a file: named columns, and cells that are
  integers, text, or missing. (Float and boolean columns are left out of the model.)
\<close>

datatype cell = IntCell int | StrCell string | NaCell

record dataframe =
  df_columns :: "string list"
  df_rows :: "cell list list"

text \<open>
  \<open>df.to_csv(buffer, index=False)\<close>: a header line with the column names, then one line per
  row, the fields separated by commas, no index column. A field that contains a comma, a
  double quote or a line break is put in double quotes, its quotes doubled; a missing
  value is the empty field.
\<close>

definition special_chars :: "char list" where
  "special_chars = [CHR '','', CHR 0x22, CHR 0x0A, CHR 0x0D]"

definition needs_quotes :: "string \<Rightarrow> bool" where
  "needs_quotes s \<longleftrightarrow> list_ex (\<lambda>c. c \<in> set special_chars) s"

definition quote_field :: "string \<Rightarrow> string" where
  "quote_field s =
     (if needs_quotes s
      then [CHR 0x22] @ concat (map (\<lambda>c. if c = CHR 0x22 then [c, c] else [c]) s) @ [CHR 0x22]
      else s)"

definition show_int :: "int \<Rightarrow> string" where
  "show_int n = (if n < 0 then ''-'' @ digits_of (nat (- n)) else digits_of (nat n))"

fun cell_text :: "cell \<Rightarrow> string" where
  "cell_text (IntCell n) = show_int n"
| "cell_text (StrCell s) = quote_field s"
| "cell_text NaCell = ''''"

fun join_comma :: "string list \<Rightarrow> string" where
  "join_comma [] = ''''"
| "join_comma [f] = f"
| "join_comma (f # g # fs) = f @ CHR '','' # join_comma (g # fs)"

definition to_csv :: "dataframe \<Rightarrow> string" where
  "to_csv df =
     concat (map (\<lambda>texts. join_comma texts @ [CHR 0x0A])
       (map quote_field (df_columns df) # map (map cell_text) (df_rows df)))"

text \<open>
  \<open>pd.read_csv(StringIO(text))\<close> on text without quoted fields: blank lines are skipped,
  the first line names the columns, a short record is filled up with missing values, a
  record longer than the header is an error, and no text at all is an error. Then every
  column gets its type from its fields: a column whose fields are all integer literals
  is a column of integers; otherwise the fields stay text, except the markers of a
  missing value. The model is exact where the theorems use it: on columns of integer
  literals. It does not cover quoted fields, nor the inference of float and boolean
  columns.
\<close>

fun split_on :: "char \<Rightarrow> string \<Rightarrow> string list" where
  "split_on sep [] = [[]]"
| "split_on sep (c # cs) =
     (if c = sep then [] # split_on sep cs
      else (case split_on sep cs of
              [] \<Rightarrow> [[c]]
            | p # ps \<Rightarrow> (c # p) # ps))"

definition is_digit :: "char \<Rightarrow> bool" where
  "is_digit c \<longleftrightarrow> c \<in> set ''0123456789''"

definition digit_value :: "char \<Rightarrow> nat" where
  "digit_value c = of_char c - 48"

definition parse_nat :: "string \<Rightarrow> nat" where
  "parse_nat ds = foldl (\<lambda>a c. 10 * a + digit_value c) 0 ds"

fun is_int_literal :: "string \<Rightarrow> bool" where
  "is_int_literal [] = False"
| "is_int_literal (c # cs) =
     (if c = CHR ''-'' \<or> c = CHR ''+'' then cs \<noteq> [] \<and> list_all is_digit cs
      else list_all is_digit (c # cs))"

fun parse_int :: "string \<Rightarrow> int" where
  "parse_int [] = 0"
| "parse_int (c # cs) =
     (if c = CHR ''-'' then - int (parse_nat cs)
      else if c = CHR ''+'' then int (parse_nat cs)
      else int (parse_nat (c # cs)))"

definition na_values :: "string list" where
  "na_values = ['''', ''#N/A'', ''#N/A N/A'', ''#NA'', ''-1.#IND'', ''-1.#QNAN'', ''-NaN'',
     ''-nan'', ''1.#IND'', ''1.#QNAN'', ''<NA>'', ''N/A'', ''NA'', ''NULL'', ''NaN'', ''None'',
     ''n/a'', ''nan'', ''null'']"

definition infer_column :: "string list \<Rightarrow> cell list" where
  "infer_column texts =
     (if list_all is_int_literal texts then map (\<lambda>f. IntCell (parse_int f)) texts
      else map (\<lambda>f. if f \<in> set na_values then NaCell else StrCell f) texts)"

definition pad_record :: "nat \<Rightarrow> string list \<Rightarrow> string list" where
  "pad_record n r = r @ replicate (n - length r) ''''"

definition read_csv :: "string \<Rightarrow> py_error + dataframe" where
  "read_csv content =
     (case filter (\<lambda>l. l \<noteq> []) (split_on (CHR 0x0A) content) of
        [] \<Rightarrow> Inl EmptyDataError
      | header # data \<Rightarrow>
          (let names = split_on (CHR '','') header;
               n = length names;
               records = map (split_on (CHR '','')) data
           in if list_ex (\<lambda>r. n < length r) records then Inl ParserError
              else
                (let padded = map (pad_record n) records;
                     cols = map (\<lambda>j. infer_column (map (\<lambda>r. r ! j) padded)) [0..<n]
                 in Inr \<lparr>df_columns = names,
                         df_rows = map (\<lambda>i. map (\<lambda>col. col ! i) cols) [0..<length records]\<rparr>)))"




section \<open>Loading the data once\<close>

text \<open>
  What \<open>load_data\<close> depends on: the two secrets that name the bucket and the key prefix,
  pandas' reader, and the two functions that \<open>app.py\<close> imports from \<open>process_data\<close>. The
  source of that module is not part of this development, so the two functions are
  parameters: each may read and write the object store, and each may raise.
\<close>

record config =
  S3_BUCKET :: string
  S3_PREFIX :: string
  pd_read_csv :: "string \<Rightarrow> py_error + dataframe"
  preprocess_sales_data :: "s3_world \<Rightarrow> (py_error + dataframe) \<times> s3_world"
  load_processed_service_data :: "s3_world \<Rightarrow> (py_error + dataframe) \<times> s3_world"

text \<open>
  The body of \<open>load_data\<close>:
  \<^verbatim>\<open>if check_file_exists_in_s3(S3_BUCKET, f"{S3_PREFIX}processed_sales_data.csv"):\<close>
  \<^verbatim>\<open>    sales_data = read_csv_from_s3(S3_BUCKET, f"{S3_PREFIX}processed_sales_data.csv")\<close>
  \<^verbatim>\<open>else: sales_data = preprocess_sales_data()\<close>
  \<^verbatim>\<open>service_data = load_processed_service_data()\<close>
  \<^verbatim>\<open>return sales_data, service_data\<close>
\<close>

definition load_data ::
  "config \<Rightarrow> s3_world \<Rightarrow> (py_error + dataframe \<times> dataframe) \<times> s3_world" where
  "load_data cfg w =
     (case check_file_exists_in_s3 w (S3_BUCKET cfg)
             (S3_PREFIX cfg @ ''processed_sales_data.csv'') of
        Inl e \<Rightarrow> (Inl e, w)
      | Inr found \<Rightarrow>
          (case (if found
                 then (read_csv_from_s3 (pd_read_csv cfg) w (S3_BUCKET cfg)
                         (S3_PREFIX cfg @ ''processed_sales_data.csv''), w)
                 else preprocess_sales_data cfg w) of
             (Inl e, w1) \<Rightarrow> (Inl e, w1)
           | (Inr sales_data, w1) \<Rightarrow>
               (case load_processed_service_data cfg w1 of
                  (Inl e, w2) \<Rightarrow> (Inl e, w2)
                | (Inr service_data, w2) \<Rightarrow> (Inr (sales_data, service_data), w2))))"




section \<open>Example tables\<close>

text \<open>
  The end-to-end scenario of the specification: outlet T NAGAR with sales of 100000 in
  2023 and of 150000 in 2025.
\<close>

definition t_nagar_scenario :: "string sales_row list" where
  "t_nagar_scenario =
     [\<lparr>salon_names = ''T NAGAR'', brand = ''NATURALS'', year = ''2023'', month = ''March'',
       mtd_sales = Fin 100000, mtd_bills = Fin 200\<rparr>,
      \<lparr>salon_names = ''T NAGAR'', brand = ''NATURALS'', year = ''2025'', month = ''March'',
       mtd_sales = Fin 150000, mtd_bills = Fin 250\<rparr>]"

text \<open>An outlet that sold nothing in the base year and 100 in the comparison year.\<close>

definition zero_base_scenario :: "string sales_row list" where
  "zero_base_scenario =
     [\<lparr>salon_names = ''ADYAR'', brand = ''NATURALS'', year = ''2023'', month = ''March'',
       mtd_sales = Fin 0, mtd_bills = Fin 0\<rparr>,
      \<lparr>salon_names = ''ADYAR'', brand = ''NATURALS'', year = ''2025'', month = ''March'',
       mtd_sales = Fin 100, mtd_bills = Fin 4\<rparr>]"

text \<open>A service type with sales of 500 and no transaction counted.\<close>

definition zero_count_scenario :: "string service_row list" where
  "zero_count_scenario =
     [\<lparr>center_name = ''ANNA NAGAR'', service_type = ''Hair'', category = ''Service'',
       svc_year = ''2025'', total_sales = Fin 500, transaction_count = Fin 0\<rparr>]"

text \<open>Two categories with the same sales, the later name first.\<close>

definition tied_categories :: "category_row list" where
  "tied_categories =
     [\<lparr>business_unit = ''Spa'', item_category = ''Massage'', cat_total_sales = Fin 10,
       total_quantity = Fin 1\<rparr>,
      \<lparr>business_unit = ''Hair'', item_category = ''Haircut'', cat_total_sales = Fin 10,
       total_quantity = Fin 1\<rparr>]"

text \<open>T NAGAR rows of one year, March listed before January.\<close>

definition unsorted_months_scenario :: "string sales_row list" where
  "unsorted_months_scenario =
     [\<lparr>salon_names = ''T NAGAR'', brand = ''NATURALS'', year = ''2025'', month = ''March'',
       mtd_sales = Fin 300, mtd_bills = Fin 3\<rparr>,
      \<lparr>salon_names = ''T NAGAR'', brand = ''NATURALS'', year = ''2025'', month = ''January'',
       mtd_sales = Fin 100, mtd_bills = Fin 1\<rparr>]"



text \<open>
  A table whose years are text, as the dashboard compares them (\<open>'2023' in years\<close>).
\<close>

definition year_text_table :: dataframe where
  "year_text_table =
     \<lparr>df_columns = [''SALON NAMES'', ''Year''],
      df_rows = [[StrCell ''T NAGAR'', StrCell ''2023''], [StrCell ''ADYAR'', StrCell ''2025'']]\<rparr>"




section \<open>Average bill value\<close>

lemma fgt_Fin0_cases:
  "fgt x (Fin 0) \<longleftrightarrow> (x = PInf \<or> (\<exists>a. x = Fin a \<and> 0 < a))"
  by (cases x) auto

text \<open>
  Claim C3. For every filtered sales table, the average bill value is the total of the
  sales divided by the total of the bills when the bills total is positive, it is exactly
  zero when the bills total is zero, and no division error is raised in either case.
\<close>

theorem avg_bill_value_spec:
  "(\<forall>s b. series_sum (map mtd_sales filtered_data) = Fin s
          \<and> series_sum (map mtd_bills filtered_data) = Fin b \<and> 0 < b
        \<longrightarrow> avg_bill_value filtered_data = Inr (Fin (s / b)))
   \<and> (series_sum (map mtd_bills filtered_data) = Fin 0
        \<longrightarrow> avg_bill_value filtered_data = Inr (Fin 0))
   \<and> (\<forall>e. avg_bill_value filtered_data \<noteq> Inl e)"
  unfolding avg_bill_value_def Let_def scalar_truediv_def
  by (auto simp: fgt_Fin0_cases)

theorem avg_bill_value_witness:
  "avg_bill_value
     [\<lparr>salon_names = ''T NAGAR'', brand = ''A'', year = 2025 :: int, month = ''March'',
       mtd_sales = Fin 900, mtd_bills = Fin 3\<rparr>,
      \<lparr>salon_names = ''ADYAR'', brand = ''A'', year = 2025, month = ''March'',
       mtd_sales = Fin 100, mtd_bills = Fin 1\<rparr>] = Inr (Fin 250)
   \<and> avg_bill_value
     [\<lparr>salon_names = ''T NAGAR'', brand = ''A'', year = 2025 :: int, month = ''March'',
       mtd_sales = Fin 900, mtd_bills = Fin 0\<rparr>] = Inr (Fin 0)"
  using avg_bill_value_spec [of
      "[\<lparr>salon_names = ''T NAGAR'', brand = ''A'', year = 2025 :: int, month = ''March'',
         mtd_sales = Fin 900, mtd_bills = Fin 3\<rparr>,
        \<lparr>salon_names = ''ADYAR'', brand = ''A'', year = 2025, month = ''March'',
         mtd_sales = Fin 100, mtd_bills = Fin 1\<rparr>]"]
    avg_bill_value_spec [of
      "[\<lparr>salon_names = ''T NAGAR'', brand = ''A'', year = 2025 :: int, month = ''March'',
         mtd_sales = Fin 900, mtd_bills = Fin 0\<rparr>]"]
  by (simp add: series_sum_def)

section \<open>Growth amount and growth percent\<close>

lemma set_merge_on:
  "set (merge_on left right) = {(k, a, b). (k, a) \<in> set left \<and> (k, b) \<in> set right}"
  unfolding merge_on_def by (auto split: prod.splits) force

lemma groupby_sum_mem:
  "(k, v) \<in> set (groupby_sum key val rows) \<longleftrightarrow>
     k \<in> key ` set rows \<and> v = series_sum (map val (filter (\<lambda>r. key r = k) rows))"
  by (auto simp: groupby_sum_def)

text \<open>
  The rows of the growth table: one for every outlet that has sales rows in both years,
  holding the two sums of that outlet and the two derived columns.
\<close>

lemma growth_data_mem:
  "r \<in> set (growth_data base_year compare_year sales_data) \<longleftrightarrow>
     (\<exists>k. k \<in> salon_names ` {x \<in> set sales_data. year x = base_year}
        \<and> k \<in> salon_names ` {x \<in> set sales_data. year x = compare_year}
        \<and> r = (let b = series_sum (map mtd_sales
                        (filter (\<lambda>x. year x = base_year \<and> salon_names x = k) sales_data));
                    c = series_sum (map mtd_sales
                        (filter (\<lambda>x. year x = compare_year \<and> salon_names x = k) sales_data))
                in \<lparr>outlet = k, sales_base = b, sales_compare = c,
                    growth_amount = growth_amount_of b c,
                    growth_percent = growth_percent_of b c\<rparr>))"
  unfolding growth_data_def Let_def
  by (auto simp: set_merge_on groupby_sum_mem image_iff conj_commute)

lemma growth_data_row_exists:
  assumes "x \<in> set sales_data" "year x = base_year" "salon_names x = k"
    and "y \<in> set sales_data" "year y = compare_year" "salon_names y = k"
  shows "\<exists>r \<in> set (growth_data base_year compare_year sales_data). outlet r = k"
proof -
  define b where "b = series_sum (map mtd_sales
      (filter (\<lambda>x. year x = base_year \<and> salon_names x = k) sales_data))"
  define c where "c = series_sum (map mtd_sales
      (filter (\<lambda>x. year x = compare_year \<and> salon_names x = k) sales_data))"
  define r where "r = \<lparr>outlet = k, sales_base = b, sales_compare = c,
      growth_amount = growth_amount_of b c, growth_percent = growth_percent_of b c\<rparr>"
  have kb: "k \<in> salon_names ` {x \<in> set sales_data. year x = base_year}"
    using assms(1-3) by blast
  have kc: "k \<in> salon_names ` {x \<in> set sales_data. year x = compare_year}"
    using assms(4-6) by blast
  have "r \<in> set (growth_data base_year compare_year sales_data)"
    unfolding growth_data_mem Let_def r_def b_def c_def
    using kb kc by (intro exI [of _ k]) simp
  moreover have "outlet r = k"
    by (simp add: r_def)
  ultimately show ?thesis by blast
qed

text \<open>
  Claim C2. For two periods with a positive base sum, the growth row of an outlet holds
  amount = sum(P1) - sum(P0) and percent = (sum(P1) / sum(P0) - 1) * 100, the sums being
  those of the outlet's sales in the base year and in the comparison year.
\<close>

theorem growth_data_spec:
  assumes "r \<in> set (growth_data base_year compare_year sales_data)"
    and "series_sum (map mtd_sales
           (filter (\<lambda>x. year x = base_year \<and> salon_names x = outlet r) sales_data)) = Fin p0"
    and "series_sum (map mtd_sales
           (filter (\<lambda>x. year x = compare_year \<and> salon_names x = outlet r) sales_data)) = Fin p1"
    and "0 < p0"
  shows "sales_base r = Fin p0 \<and> sales_compare r = Fin p1
       \<and> growth_amount r = Fin (p1 - p0)
       \<and> growth_percent r = Fin ((p1 / p0 - 1) * 100)"
  using assms unfolding growth_data_mem Let_def
  by (auto simp: growth_amount_of_def growth_percent_of_def fsub_def)

text \<open>
  The two examples of the claim: sums of 100000 and 150000 for T NAGAR give an amount of
  50000 and 50 percent, and so do, a thousand times smaller, sums of 100 and 150.
\<close>

theorem growth_data_witness:
  "(\<exists>r. growth_data ''2023'' ''2025'' t_nagar_scenario = [r] \<and> outlet r = ''T NAGAR''
        \<and> growth_amount r = Fin 50000 \<and> growth_percent r = Fin 50)
   \<and> (\<exists>r. growth_data (1 :: int) 2
            [\<lparr>salon_names = ''A'', brand = ''B'', year = 1, month = ''May'',
              mtd_sales = Fin 100, mtd_bills = Fin 1\<rparr>,
             \<lparr>salon_names = ''A'', brand = ''B'', year = 2, month = ''May'',
              mtd_sales = Fin 150, mtd_bills = Fin 1\<rparr>] = [r]
        \<and> growth_amount r = Fin 50 \<and> growth_percent r = Fin 50)"
proof -
  let ?t = "[\<lparr>salon_names = ''A'', brand = ''B'', year = 1 :: int, month = ''May'',
              mtd_sales = Fin 100, mtd_bills = Fin 1\<rparr>,
             \<lparr>salon_names = ''A'', brand = ''B'', year = 2, month = ''May'',
              mtd_sales = Fin 150, mtd_bills = Fin 1\<rparr>]"
  obtain r where r: "growth_data ''2023'' ''2025'' t_nagar_scenario = [r]"
    and k: "outlet r = ''T NAGAR''"
    by (simp add: t_nagar_scenario_def growth_data_def groupby_sum_def merge_on_def)
  have "r \<in> set (growth_data ''2023'' ''2025'' t_nagar_scenario)"
    using r by simp
  from growth_data_spec [OF this, of 100000 150000]
  have "growth_amount r = Fin 50000 \<and> growth_percent r = Fin 50"
    by (simp add: k t_nagar_scenario_def series_sum_def)
  with r k have first: "\<exists>r. growth_data ''2023'' ''2025'' t_nagar_scenario = [r]
      \<and> outlet r = ''T NAGAR'' \<and> growth_amount r = Fin 50000 \<and> growth_percent r = Fin 50"
    by blast
  obtain q where q: "growth_data 1 2 ?t = [q]" and kq: "outlet q = ''A''"
    by (simp add: growth_data_def groupby_sum_def merge_on_def)
  have "q \<in> set (growth_data 1 2 ?t)"
    using q by simp
  from growth_data_spec [OF this, of 100 150]
  have "growth_amount q = Fin 50 \<and> growth_percent q = Fin 50"
    by (simp add: kq series_sum_def)
  with q have "\<exists>r. growth_data 1 2 ?t = [r] \<and> growth_amount r = Fin 50
      \<and> growth_percent r = Fin 50"
    by blast
  with first show ?thesis by blast
qed

section \<open>A zero base in the growth tables\<close>

text \<open>
  The centre growth table guards the division and shows the marker: with a base of zero
  (or a missing one) the percentage is set to infinity without dividing, and the table
  shows \<open>N/A\<close> for it.
\<close>

lemma growth_pct_never_raises: "\<exists>v. growth_pct prev_sales current_sales = Inr v"
  unfolding growth_pct_def scalar_truediv_def
  by (cases prev_sales) auto

lemma center_growth_zero_base:
  "growth_pct (Fin 0) current_sales = Inr PInf \<and> display_center_growth PInf = ''N/A''"
  by (simp add: growth_pct_def display_center_growth_def)

text \<open>
  The Year-to-Year table divides without a guard and formats without the special case:
  a zero base under a positive comparison sum is an infinite percentage, shown as
  \<open>inf%\<close>.
\<close>

lemma growth_percent_of_zero_base:
  "0 < c \<Longrightarrow> growth_percent_of (Fin 0) (Fin c) = PInf"
  by (simp add: growth_percent_of_def signed_inf_def fsub_def)

text \<open>
  Claim C1, at the input on which the code departs from it. The outlet ADYAR has a base
  sum of 0 and a comparison sum of 100; the Detailed Growth Table shows \<open>inf%\<close> as its
  growth percent, where the claim requires \<open>N/A\<close>.
\<close>

theorem display_growth_zero_base:
  "map d_growth_percent (display_growth stable_argsort ''2023'' ''2025'' zero_base_scenario)
     = [''inf%'']"
  by (simp add: display_growth_def growth_data_def zero_base_scenario_def groupby_sum_def
      merge_on_def series_sum_def growth_amount_of_def growth_percent_of_def fsub_def
      signed_inf_def sort_values_def nargsort_def stable_argsort_def format_percent2_def)

section \<open>Average transaction\<close>

text \<open>
  Claim C4, at the input on which the code departs from it. The quotient is taken for
  every row, whatever the count: a service type with sales of 500 and a transaction count
  of 0 gets an infinite average, and the table shows it, formatted as an amount.
\<close>

theorem category_details_zero_count:
  "map average_transaction (category_details zero_count_scenario) = [PInf]
   \<and> map average_transaction_text (category_details_display zero_count_scenario)
       = [rupee @ ''inf'']"
  by (simp add: category_details_display_def category_details_def groupby_agg_sum_def
      with_average_transaction_def zero_count_scenario_def series_sum_def signed_inf_def
      format_rupees_def)

lemma average_transaction_unguarded:
  "r \<in> set (category_details filtered_service_data) \<Longrightarrow>
     average_transaction r = fdiv (sum_sales r) (sum_count r)"
  by (auto simp: category_details_def with_average_transaction_def)

section \<open>Sorting a table by a column: what it guarantees\<close>

lemma mset_map_nth_perm:
  assumes "mset p = mset [0..<length xs]"
  shows "mset (map (\<lambda>i. xs ! i) p) = mset xs"
proof -
  have "mset (map (\<lambda>i. xs ! i) p) = image_mset (\<lambda>i. xs ! i) (mset p)" by simp
  also have "\<dots> = image_mset (\<lambda>i. xs ! i) (mset [0..<length xs])" using assms by simp
  also have "\<dots> = mset (map (\<lambda>i. xs ! i) [0..<length xs])" by simp
  also have "\<dots> = mset xs" by (simp add: map_nth)
  finally show ?thesis .
qed

lemma argsort_okD:
  assumes "argsort_ok argsort"
  shows "mset (argsort xs) = mset [0..<length xs]"
    and "sorted (map (\<lambda>i. sort_rank (xs ! i)) (argsort xs))"
  using assms unfolding argsort_ok_def by blast+

lemma argsort_ok_set:
  assumes "argsort_ok argsort"
  shows "set (argsort xs) = {..<length xs}"
proof -
  have "set (argsort xs) = set_mset (mset (argsort xs))" by simp
  also have "\<dots> = set_mset (mset [0..<length xs])" using argsort_okD(1) [OF assms] by simp
  also have "\<dots> = {..<length xs}" by auto
  finally show ?thesis .
qed

lemma mset_filter_split:
  "mset (filter P xs) + mset (filter (\<lambda>x. \<not> P x) xs) = mset xs"
  by (induction xs) auto

text \<open>The rows that nargsort hands to argsort, through the index list.\<close>

lemma map_nth_argsort:
  assumes "argsort_ok argsort" "length idx = length ks"
  shows "mset (map (\<lambda>j. idx ! j) (argsort ks)) = mset idx"
proof -
  have "mset (argsort ks) = mset [0..<length idx]"
    using argsort_okD(1) [OF assms(1), of ks] assms(2) by simp
  then show ?thesis by (rule mset_map_nth_perm)
qed

lemma mset_nargsort:
  assumes "argsort_ok argsort"
  shows "mset (nargsort argsort ascending items) = mset [0..<length items]"
proof -
  let ?idx = "[0..<length items]"
  let ?nn = "filter (\<lambda>i. items ! i \<noteq> NaN) ?idx"
  let ?na = "filter (\<lambda>i. items ! i = NaN) ?idx"
  have split: "mset ?nn + mset ?na = mset ?idx"
    using mset_filter_split [of "\<lambda>i. items ! i \<noteq> NaN" ?idx] by simp
  show ?thesis
  proof (cases ascending)
    case True
    have "mset (map (\<lambda>j. ?nn ! j) (argsort (map (\<lambda>i. items ! i) ?nn))) = mset ?nn"
      by (rule map_nth_argsort [OF assms]) simp
    then show ?thesis using True split by (simp add: nargsort_def Let_def)
  next
    case False
    have "mset (map (\<lambda>j. rev ?nn ! j) (argsort (rev (map (\<lambda>i. items ! i) ?nn)))) = mset (rev ?nn)"
      by (rule map_nth_argsort [OF assms]) simp
    then show ?thesis using False split by (simp add: nargsort_def Let_def)
  qed
qed

lemma mset_sort_values:
  assumes "argsort_ok argsort"
  shows "mset (sort_values argsort by ascending df) = mset df"
  unfolding sort_values_def
  by (rule mset_map_nth_perm) (simp add: mset_nargsort [OF assms])

lemma sorted_wrt_all_NaN:
  "\<forall>b \<in> set xs. b = NaN \<Longrightarrow> sorted_wrt (key_before ascending) xs"
  by (induction xs) (auto simp: key_before_def)

lemma sorted_keys_argsort:
  assumes ok: "argsort_ok argsort" and nn: "NaN \<notin> set ks"
  shows "sorted_wrt (key_before True) (map (\<lambda>j. ks ! j) (argsort ks))"
proof -
  let ?out = "map (\<lambda>j. ks ! j) (argsort ks)"
  have in_range: "\<forall>j \<in> set (argsort ks). j < length ks"
    using argsort_ok_set [OF ok, of ks] by auto
  have "sorted (map sort_rank ?out)"
    using argsort_okD(2) [OF ok, of ks] by (simp add: comp_def)
  then have asc: "sorted_wrt (\<lambda>a b. sort_rank a \<le> sort_rank b) ?out"
    by (simp add: sorted_wrt_map)
  have no_nan: "\<forall>a \<in> set ?out. a \<noteq> NaN"
    using in_range nn by (auto simp: in_set_conv_nth)
  show ?thesis
  proof (rule sorted_wrt_mono_rel [OF _ asc])
    fix x y
    assume "x \<in> set ?out" "y \<in> set ?out" "sort_rank x \<le> sort_rank y"
    then show "key_before True x y"
      using no_nan by (auto simp: key_before_def)
  qed
qed

lemma sorted_keys_argsort_rev:
  assumes ok: "argsort_ok argsort" and nn: "NaN \<notin> set ks"
  shows "sorted_wrt (key_before False) (rev (map (\<lambda>j. ks ! j) (argsort ks)))"
proof -
  let ?out = "map (\<lambda>j. ks ! j) (argsort ks)"
  have in_range: "\<forall>j \<in> set (argsort ks). j < length ks"
    using argsort_ok_set [OF ok, of ks] by auto
  have "sorted (map sort_rank ?out)"
    using argsort_okD(2) [OF ok, of ks] by (simp add: comp_def)
  then have "sorted_wrt (\<lambda>a b. sort_rank a \<le> sort_rank b) ?out"
    by (simp add: sorted_wrt_map)
  then have desc: "sorted_wrt (\<lambda>a b. sort_rank b \<le> sort_rank a) (rev ?out)"
    by (simp add: sorted_wrt_rev)
  have no_nan: "\<forall>a \<in> set (rev ?out). a \<noteq> NaN"
    using in_range nn by (auto simp: in_set_conv_nth)
  show ?thesis
  proof (rule sorted_wrt_mono_rel [OF _ desc])
    fix x y
    assume "x \<in> set (rev ?out)" "y \<in> set (rev ?out)" "sort_rank y \<le> sort_rank x"
    then show "key_before False x y"
      using no_nan by (auto simp: key_before_def)
  qed
qed

lemma nth_map_argsort:
  assumes ok: "argsort_ok argsort" and len: "length idx = length ks"
    and ks: "ks = map (\<lambda>i. items ! i) idx"
  shows "map (\<lambda>i. items ! i) (map (\<lambda>j. idx ! j) (argsort ks)) = map (\<lambda>j. ks ! j) (argsort ks)"
proof -
  have "\<forall>j \<in> set (argsort ks). j < length idx"
    using argsort_ok_set [OF ok, of ks] len by auto
  then show ?thesis by (simp add: ks)
qed

lemma sorted_keys_nargsort:
  assumes ok: "argsort_ok argsort"
  shows "sorted_wrt (key_before ascending)
           (map (\<lambda>i. items ! i) (nargsort argsort ascending items))"
proof -
  let ?idx = "[0..<length items]"
  let ?nn = "filter (\<lambda>i. items ! i \<noteq> NaN) ?idx"
  let ?na = "filter (\<lambda>i. items ! i = NaN) ?idx"
  have nan_part: "\<forall>b \<in> set (map (\<lambda>i. items ! i) ?na). b = NaN"
    by auto
  have tail: "sorted_wrt (key_before ascending) (map (\<lambda>i. items ! i) ?na)"
    using nan_part by (rule sorted_wrt_all_NaN)
  have cross: "\<And>front. \<forall>a \<in> set front. \<forall>b \<in> set (map (\<lambda>i. items ! i) ?na).
      key_before ascending a b"
    by (auto simp: key_before_def)
  show ?thesis
  proof (cases ascending)
    case True
    let ?ks = "map (\<lambda>i. items ! i) ?nn"
    let ?front = "map (\<lambda>i. items ! i) (map (\<lambda>j. ?nn ! j) (argsort ?ks))"
    have nn: "NaN \<notin> set ?ks" by auto
    have eq: "?front = map (\<lambda>j. ?ks ! j) (argsort ?ks)"
      by (rule nth_map_argsort [OF ok]) simp_all
    have asc: "ascending = True" using True by simp
    have front: "sorted_wrt (key_before ascending) ?front"
      unfolding asc by (subst eq) (rule sorted_keys_argsort [OF ok nn])
    have "map (\<lambda>i. items ! i) (nargsort argsort ascending items)
        = ?front @ map (\<lambda>i. items ! i) ?na"
      using True by (simp add: nargsort_def Let_def)
    then show ?thesis
      using front tail cross [of ?front] by (simp only: sorted_wrt_append)
  next
    case False
    let ?ks = "rev (map (\<lambda>i. items ! i) ?nn)"
    let ?front = "map (\<lambda>i. items ! i) (map (\<lambda>j. rev ?nn ! j) (argsort ?ks))"
    have nn: "NaN \<notin> set ?ks" by auto
    have ks: "?ks = map (\<lambda>i. items ! i) (rev ?nn)" by (simp add: rev_map)
    have eq: "?front = map (\<lambda>j. ?ks ! j) (argsort ?ks)"
      by (rule nth_map_argsort [OF ok _ ks]) simp
    have asc: "ascending = False" using False by simp
    have front: "sorted_wrt (key_before ascending) (rev ?front)"
      unfolding asc by (subst eq) (rule sorted_keys_argsort_rev [OF ok nn])
    have "map (\<lambda>i. items ! i) (nargsort argsort ascending items)
        = rev ?front @ map (\<lambda>i. items ! i) ?na"
      using False by (simp add: nargsort_def Let_def rev_map)
    then show ?thesis
      using front tail cross [of "rev ?front"] by (simp only: sorted_wrt_append)
  qed
qed

lemma map_by_sort_values:
  assumes ok: "argsort_ok argsort"
  shows "map by (sort_values argsort by ascending df)
       = map (\<lambda>i. map by df ! i) (nargsort argsort ascending (map by df))"
proof -
  have "set (nargsort argsort ascending (map by df)) = set [0..<length (map by df)]"
    using mset_nargsort [OF ok, of ascending "map by df"] by (metis set_mset_mset)
  then have "\<forall>i \<in> set (nargsort argsort ascending (map by df)). i < length df"
    by simp
  then show ?thesis by (simp add: sort_values_def)
qed

lemma sorted_sort_values:
  assumes ok: "argsort_ok argsort"
  shows "sorted_wrt (\<lambda>a b. key_before ascending (by a) (by b))
           (sort_values argsort by ascending df)"
proof -
  have "sorted_wrt (key_before ascending) (map by (sort_values argsort by ascending df))"
    unfolding map_by_sort_values [OF ok] by (rule sorted_keys_nargsort [OF ok])
  then show ?thesis by (simp add: sorted_wrt_map)
qed

lemma length_sort_values:
  assumes ok: "argsort_ok argsort"
  shows "length (sort_values argsort by ascending df) = length df"
  using mset_sort_values [OF ok, of "by" ascending df] by (metis size_mset)

lemma stable_argsort_ok: "argsort_ok stable_argsort"
  unfolding argsort_ok_def
proof (intro allI conjI)
  fix xs :: "float64 list"
  let ?zs = "zip (map sort_rank xs) [0..<length xs]"
  have "mset (stable_argsort xs) = image_mset snd (mset (sort_key fst ?zs))"
    by (simp add: stable_argsort_def)
  also have "\<dots> = image_mset snd (mset ?zs)" by simp
  also have "\<dots> = mset (map snd ?zs)" by (simp only: mset_map)
  also have "map snd ?zs = [0..<length xs]" by simp
  finally show "mset (stable_argsort xs) = mset [0..<length xs]" .
  have "\<forall>z \<in> set (sort_key fst ?zs). fst z = sort_rank (xs ! snd z)"
    by (auto simp: set_zip)
  then have "map (\<lambda>i. sort_rank (xs ! i)) (stable_argsort xs) = map fst (sort_key fst ?zs)"
    by (simp add: stable_argsort_def)
  then show "sorted (map (\<lambda>i. sort_rank (xs ! i)) (stable_argsort xs))"
    by simp
qed

text \<open>
  The center table takes the same quotient for every center, before it is sorted.
\<close>

lemma center_sales_unguarded:
  assumes "argsort_ok argsort" "r \<in> set (center_sales argsort filtered_service_data)"
  shows "average_transaction r = fdiv (sum_sales r) (sum_count r)"
proof -
  let ?t = "map with_average_transaction (groupby_agg_sum center_name filtered_service_data)"
  have "set (sort_values argsort sum_sales False ?t) = set ?t"
    using mset_sort_values [OF assms(1), of sum_sales False ?t] by (rule mset_eq_setD)
  then have "r \<in> set ?t"
    using assms(2) by (simp add: center_sales_def)
  then show ?thesis
    by (auto simp: with_average_transaction_def)
qed

section \<open>The top 15 categories\<close>

lemma top_tied:
  "map item_category (top_categories stable_argsort tied_categories) = [''Massage'', ''Haircut'']"
  by (simp add: top_categories_def sort_values_def nargsort_def stable_argsort_def tied_categories_def)

text \<open>
  The claim C5 as it is stated fails on a table of two categories with equal sales: the
  selection keeps them in the order of the table, Massage before Haircut, and never
  looks at the names.
\<close>

theorem top_categories_ties_counterexample:
  "\<not> by_sales_then_name (top_categories stable_argsort tied_categories)"
  by (simp add: by_sales_then_name_def top_categories_def sort_values_def nargsort_def
      stable_argsort_def tied_categories_def)

text \<open>
  Claim C5, amended. For every category table, the top-15 selection returns
  min(15, number of rows) rows of the table, in falling order of sales with the rows of
  missing sales last, and no row left out may stand before a row kept. The order among
  rows of equal sales is whatever the sort leaves; the result is a function of the table,
  hence the same at every call.
\<close>

theorem top_categories_spec:
  assumes ok: "argsort_ok argsort"
  shows "length (top_categories argsort category_data) = min 15 (length category_data)
       \<and> mset (top_categories argsort category_data) \<subseteq># mset category_data
       \<and> sorted_wrt (\<lambda>a b. key_before False (cat_total_sales a) (cat_total_sales b))
           (top_categories argsort category_data)
       \<and> (\<forall>a \<in> set (top_categories argsort category_data).
            \<forall>b \<in># mset category_data - mset (top_categories argsort category_data).
              key_before False (cat_total_sales a) (cat_total_sales b))"
proof -
  let ?s = "sort_values argsort cat_total_sales False category_data"
  let ?R = "\<lambda>a b. key_before False (cat_total_sales a) (cat_total_sales b)"
  have top: "top_categories argsort category_data = take 15 ?s"
    by (simp add: top_categories_def)
  have perm: "mset ?s = mset category_data"
    by (rule mset_sort_values [OF ok])
  have srt: "sorted_wrt ?R ?s"
    by (rule sorted_sort_values [OF ok])
  have split: "mset (take 15 ?s) + mset (drop 15 ?s) = mset category_data"
    using perm by (metis append_take_drop_id mset_append)
  have len: "length (take 15 ?s) = min 15 (length category_data)"
    using length_sort_values [OF ok, of cat_total_sales False category_data] by simp
  have sub: "mset (take 15 ?s) \<subseteq># mset category_data"
    using split by (metis mset_subset_eq_add_left)
  have "sorted_wrt ?R (take 15 ?s @ drop 15 ?s)"
    using srt by simp
  then have parts: "sorted_wrt ?R (take 15 ?s)"
    and cross: "\<forall>a \<in> set (take 15 ?s). \<forall>b \<in> set (drop 15 ?s). ?R a b"
    unfolding sorted_wrt_append by blast+
  have rest: "mset category_data - mset (take 15 ?s) = mset (drop 15 ?s)"
    using split by (metis add_diff_cancel_left')
  show ?thesis
    unfolding top rest using len sub parts cross by simp
qed

theorem top_categories_witness:
  "length (top_categories stable_argsort tied_categories) = 2
   \<and> sorted_wrt (\<lambda>a b. key_before False (cat_total_sales a) (cat_total_sales b))
       (top_categories stable_argsort tied_categories)
   \<and> map item_category (top_categories stable_argsort tied_categories)
       = [''Massage'', ''Haircut'']"
  using top_categories_spec [OF stable_argsort_ok, of tied_categories] top_tied
  by (simp add: tied_categories_def)

text \<open>Whatever argsort does with equal keys, it cannot follow the names.\<close>

lemma perm_of_two:
  assumes "mset p = mset [0, Suc 0]"
  shows "p = [0, Suc 0] \<or> p = [Suc 0, 0]"
proof -
  have "length p = 2" using assms by (metis length_Cons list.size(3) numeral_2_eq_2 size_mset)
  then obtain a b where p: "p = [a, b]"
    by (metis (no_types, opaque_lifting) Suc_length_conv length_0_conv numeral_2_eq_2)
  have "set p = {0, Suc 0}" using assms by (metis list.set(1) list.set(2) set_mset_mset)
  with p assms show ?thesis by (auto simp: doubleton_eq_iff)
qed

lemma ties_never_by_name:
  assumes ok: "argsort_ok argsort"
  shows "\<not> (by_sales_then_name (top_categories argsort tied_categories)
           \<and> by_sales_then_name (top_categories argsort (rev tied_categories)))"
proof -
  let ?p = "nargsort argsort False [Fin 10, Fin 10]"
  have "mset ?p = mset [0..<length [Fin 10, Fin 10]]"
    by (rule mset_nargsort [OF ok])
  moreover have "[0..<length [Fin 10, Fin 10]] = [0, Suc 0]"
    by (simp add: upt_rec)
  ultimately have "mset ?p = mset [0, Suc 0]"
    by (simp only:)
  then have "?p = [0, Suc 0] \<or> ?p = [Suc 0, 0]"
    by (rule perm_of_two)
  then show ?thesis
    by (auto simp: by_sales_then_name_def top_categories_def sort_values_def tied_categories_def)
qed

section \<open>The comparison year\<close>

lemma year_options_strict: "sorted_wrt (<) (year_options sales_data)"
  unfolding year_options_def unique_def
  by (simp add: strict_sorted_iff)

lemma selectbox_mem: "selectbox options i = Some x \<Longrightarrow> x \<in> set options"
  by (auto simp: selectbox_def split: if_splits)

lemma butlast_less_last:
  assumes "sorted_wrt (<) (ys :: ('y::linorder) list)" "b \<in> set (butlast ys)"
  shows "b < last ys"
proof -
  from assms(2) have ne: "ys \<noteq> []" by auto
  then have "ys = butlast ys @ [last ys]" by simp
  then have "sorted_wrt (<) (butlast ys @ [last ys])" using assms(1) by simp
  then show ?thesis using assms(2) by (simp add: sorted_wrt_append)
qed

text \<open>
  Claim C9. Whatever base year the user picks among the years offered, a comparison year
  is on offer, every comparison year on offer is strictly greater than the base year,
  and so is the one the user picks: the two periods never coincide and are never
  reversed.
\<close>

theorem compare_year_after_base_year:
  fixes sales_data :: "('y::linorder) sales_row list"
  assumes "selectbox (base_year_options (year_options sales_data)) i = Some base_year"
  shows "compare_year_options (year_options sales_data) base_year \<noteq> []
       \<and> (\<forall>y \<in> set (compare_year_options (year_options sales_data) base_year). base_year < y)
       \<and> (\<forall>j compare_year. year_to_year_selection sales_data i j = Some (base_year, compare_year)
             \<longrightarrow> base_year < compare_year)
       \<and> (\<forall>j b c. year_to_year_selection sales_data i j = Some (b, c) \<longrightarrow> b = base_year \<and> b < c)"
proof -
  let ?years = "year_options sales_data"
  have b: "base_year \<in> set (butlast ?years)"
    using selectbox_mem [OF assms] by (simp add: base_year_options_def)
  then have "base_year < last ?years"
    using butlast_less_last year_options_strict by blast
  moreover have "last ?years \<in> set ?years"
    using b by (intro last_in_set) auto
  ultimately have ne: "compare_year_options ?years base_year \<noteq> []"
    by (auto simp: compare_year_options_def filter_empty_conv)
  have gt: "\<forall>y \<in> set (compare_year_options ?years base_year). base_year < y"
    by (simp add: compare_year_options_def)
  have sel: "\<forall>j b c. year_to_year_selection sales_data i j = Some (b, c) \<longrightarrow> b = base_year \<and> b < c"
    using assms gt
    by (auto simp: year_to_year_selection_def Let_def dest: selectbox_mem split: if_splits option.splits)
  from ne gt sel show ?thesis by blast
qed

theorem compare_year_after_base_year_witness:
  "year_to_year_selection
     [\<lparr>salon_names = ''A'', brand = ''B'', year = 2024 :: int, month = ''May'',
       mtd_sales = Fin 1, mtd_bills = Fin 1\<rparr>,
      \<lparr>salon_names = ''A'', brand = ''B'', year = 2023, month = ''May'',
       mtd_sales = Fin 1, mtd_bills = Fin 1\<rparr>,
      \<lparr>salon_names = ''A'', brand = ''B'', year = 2025, month = ''May'',
       mtd_sales = Fin 1, mtd_bills = Fin 1\<rparr>] 1 0 = Some (2024, 2025)
   \<and> (2024 :: int) < 2025"
proof -
  let ?t = "[\<lparr>salon_names = ''A'', brand = ''B'', year = 2024 :: int, month = ''May'',
       mtd_sales = Fin 1, mtd_bills = Fin 1\<rparr>,
      \<lparr>salon_names = ''A'', brand = ''B'', year = 2023, month = ''May'',
       mtd_sales = Fin 1, mtd_bills = Fin 1\<rparr>,
      \<lparr>salon_names = ''A'', brand = ''B'', year = 2025, month = ''May'',
       mtd_sales = Fin 1, mtd_bills = Fin 1\<rparr>]"
  have years: "year_options ?t = [2023, 2024, 2025]"
    by (simp add: year_options_def unique_def)
  have base: "selectbox (base_year_options (year_options ?t)) 1 = Some 2024"
    by (simp add: years base_year_options_def selectbox_def)
  have sel: "year_to_year_selection ?t 1 0 = Some (2024, 2025)"
    by (simp add: year_to_year_selection_def years base_year_options_def selectbox_def
        compare_year_options_def)
  from compare_year_after_base_year [OF base] sel
  have "(2024 :: int) < 2025" by blast
  with sel show ?thesis by simp
qed

section \<open>The order of the months\<close>

text \<open>
  The monthly trend of the overview tab sorts by the calendar key, so its months come in
  calendar order whatever the order of the rows.
\<close>

lemma monthly_sales_calendar_ordered:
  assumes "argsort_ok argsort"
  shows "calendar_ordered (map (\<lambda>r. fst (fst r)) (monthly_sales argsort filtered_data))"
  unfolding calendar_ordered_def monthly_sales_def sorted_wrt_map
  by (rule sorted_sort_values [OF assms])

lemma month_sorted_March: "month_sorted ''March'' = Fin 2"
  by (simp add: month_sorted_def month_order_def)

lemma month_sorted_January: "month_sorted ''January'' = Fin 0"
  by (simp add: month_sorted_def month_order_def)

text \<open>
  Claim C7, at the input on which the code departs from it. The T NAGAR chart has no
  such sort: with the rows of March listed before those of January, its month axis reads
  March, January, which is not calendar order.
\<close>

theorem t_nagar_chart_not_calendar_ordered:
  "t_nagar_chart_months unsorted_months_scenario = [''March'', ''January'']
   \<and> \<not> calendar_ordered (t_nagar_chart_months unsorted_months_scenario)"
proof -
  have m: "t_nagar_chart_months unsorted_months_scenario = [''March'', ''January'']"
    by (simp add: t_nagar_chart_months_def px_category_axis_def unique_def
        unsorted_months_scenario_def)
  show ?thesis
    unfolding m calendar_ordered_def
    by (simp add: month_sorted_March month_sorted_January key_before_def)
qed

section \<open>Writing and reading CSV text\<close>








subsection \<open>Integers as text\<close>







lemma is_digit_not_special: "is_digit c \<Longrightarrow> c \<notin> set special_chars"
  by (auto simp: is_digit_def special_chars_def)







subsection \<open>The round trip of a table of integers\<close>








subsection \<open>The text written is well-formed UTF-8\<close>








section \<open>Reading a table from the object store\<close>










section \<open>Writing a table and reading it back\<close>






lemma year_text_csv:
  "to_csv year_text_table
     = ''SALON NAMES,Year'' @ [CHR 0x0A] @ ''T NAGAR,2023'' @ [CHR 0x0A] @ ''ADYAR,2025'' @ [CHR 0x0A]"
  by code_simp




section \<open>The cached load\<close>







text \<open>
  When the processed file is in the store, the sales table is read from it:
  \<open>preprocess_sales_data\<close> has no part in the result.
\<close>

lemma load_data_reads_processed_file:
  assumes "check_file_exists_in_s3 w (S3_BUCKET cfg) (S3_PREFIX cfg @ ''processed_sales_data.csv'')
      = Inr True"
  shows "load_data (cfg\<lparr>preprocess_sales_data := other\<rparr>) w = load_data cfg w"
  using assms by (simp add: load_data_def cong: sum.case_cong)

end
